theory Spec2Isabelle
  imports Complex_Main "HOL-Library.Word"
begin

section \<open>Numbers and vectors\<close>

text \<open>
  The renderer computes with single-precision floats. They are idealised here as
  real numbers: every float operation of the source is the exact operation on
  \<^typ>\<open>real\<close>, a float literal is the decimal it is written as, and rounding
  and infinities are outside the model. A quotient by zero is HOL's (zero) in the total
  operators below; the theorems about them assume the divisors are not zero, and the
  sampling of a direction has a second, checked model in which the quotient 0 / 0 and
  the square root of a negative number are "not a number", as they are in the source.
\<close>

datatype vec3 = Vec3 (vx: real) (vy: real) (vz: real)

text \<open>
  Modelled from the spec: the header VectorTypes.h that declares vec3 and its operators is
  not among the sources. The data model of the spec has a color of three floats
  "combined by component-wise addition and multiplication": the sum, the difference and
  the product of two vectors are taken in every coordinate.
\<close>

instantiation vec3 :: "{plus, minus, times}"
begin

definition plus_vec3 :: "vec3 \<Rightarrow> vec3 \<Rightarrow> vec3" where
  "plus_vec3 a b = Vec3 (vx a + vx b) (vy a + vy b) (vz a + vz b)"

definition minus_vec3 :: "vec3 \<Rightarrow> vec3 \<Rightarrow> vec3" where
  "minus_vec3 a b = Vec3 (vx a - vx b) (vy a - vy b) (vz a - vz b)"

definition times_vec3 :: "vec3 \<Rightarrow> vec3 \<Rightarrow> vec3" where
  "times_vec3 a b = Vec3 (vx a * vx b) (vy a * vy b) (vz a * vz b)"

instance ..

end

text \<open>
  Modelled from the spec: \<open>vec3 * float\<close> and \<open>vec3 / float\<close> of the missing VectorTypes.h,
  the product and the quotient of every coordinate with a scalar (the spec's "dividing by
  pi" of a color, and its radiance attenuated by the squared distance).
\<close>

definition scale :: "vec3 \<Rightarrow> real \<Rightarrow> vec3" where
  "scale a s = Vec3 (vx a * s) (vy a * s) (vz a * s)"

definition divide_by :: "vec3 \<Rightarrow> real \<Rightarrow> vec3" where
  "divide_by a s = Vec3 (vx a / s) (vy a / s) (vz a / s)"

text \<open>
  Modelled from the spec: dot, cross, the member length and normalize of the missing
  VectorTypes.h, with their usual meaning: the spec takes "dot(normal, lightDirection)" as
  a cosine, builds an orthonormal frame from cross products, and has the "unit direction"
  towards the light as the vector divided by its length.
\<close>

definition dot :: "vec3 \<Rightarrow> vec3 \<Rightarrow> real" where
  "dot a b = vx a * vx b + vy a * vy b + vz a * vz b"

definition cross :: "vec3 \<Rightarrow> vec3 \<Rightarrow> vec3" where
  "cross a b = Vec3 (vy a * vz b - vz a * vy b)
                    (vz a * vx b - vx a * vz b)
                    (vx a * vy b - vy a * vx b)"

definition vlength :: "vec3 \<Rightarrow> real" where
  "vlength a = sqrt (dot a a)"

definition normalize :: "vec3 \<Rightarrow> vec3" where
  "normalize a = divide_by a (vlength a)"

text \<open>
  Modelled from the spec: \<open>pow(vec3, float)\<close> of the missing VectorTypes.h; the spec's shading
  model decodes gamma by "each channel (raise to exponent 2.2)".
\<close>

definition pow :: "vec3 \<Rightarrow> real \<Rightarrow> vec3" where
  "pow a e = Vec3 (vx a powr e) (vy a powr e) (vz a powr e)"

section \<open>Rays, materials and the geometry queries\<close>

text \<open>
  RTCRay of Embree 2: org and dir are arrays of three floats, geomID and primID are
  unsigned 32-bit, mask is a 32-bit int. The fields carry the prefix ray.
\<close>

record RTCRay =
  ray_org :: vec3
  ray_dir :: vec3
  ray_tnear :: real
  ray_tfar :: real
  ray_time :: real
  ray_mask :: "32 word"
  ray_geomID :: "32 word"
  ray_primID :: "32 word"
  ray_u :: real
  ray_v :: real

text \<open>RTC_INVALID_GEOMETRY_ID is \<open>((unsigned int)-1)\<close> in Embree's header.\<close>

definition RTC_INVALID_GEOMETRY_ID :: "32 word" where
  "RTC_INVALID_GEOMETRY_ID = - 1"

text \<open>\<open>std::numeric_limits<float>::max()\<close>, the largest finite float.\<close>

definition FLT_MAX :: real where
  "FLT_MAX = (2 - 1 / 2 ^ 23) * 2 ^ 127"

text \<open>
  The scene is Embree's, outside the repository: it is a parameter that supplies what the
  three library calls of the source do. rtcIntersect and rtcOccluded receive the ray and
  give it back as the library leaves it; rtcInterpolate2 gives the three floats it writes
  into the normal (the buffer starts at zero) for a geometry, a primitive and the
  barycentric coordinates.
\<close>

record RTCScene =
  rtcIntersect :: "RTCRay \<Rightarrow> RTCRay"
  rtcOccluded :: "RTCRay \<Rightarrow> RTCRay"
  rtcInterpolate2 :: "32 word \<Rightarrow> 32 word \<Rightarrow> real \<Rightarrow> real \<Rightarrow> vec3"

text \<open>
  Modelled from the spec: Material.h is not among the sources. A material of the spec
  "holds a base reflectance color (3 floats)"; the source reads it as DiffuseColor[0..2].
\<close>

record Material =
  DiffuseColor :: vec3

text \<open>
  \<open>Materials[ray.geomID]\<close> is \<open>std::vector::operator[]\<close>: an index past the end is
  undefined behaviour, an error value here.
\<close>

datatype error = MaterialIndexOutOfRange

definition material_at :: "Material list \<Rightarrow> 32 word \<Rightarrow> error + Material" where
  "material_at Materials g =
     (if unat g < length Materials then Inr (Materials ! unat g)
      else Inl MaterialIndexOutOfRange)"

section \<open>Constants of Renderer.cpp\<close>

definition PI :: real where
  "PI = 3.14159265359"

definition EPSILON :: real where
  "EPSILON = 0.00003"

definition gamma :: real where
  "gamma = 2.2"

definition WorldGetBackground :: "RTCRay \<Rightarrow> vec3" where
  "WorldGetBackground ray = Vec3 0 0 0"

definition Q :: vec3 where
  "Q = Vec3 0 1.4 0"

section \<open>The multi-bounce integrator Trace\<close>

text \<open>
  The random source: \<open>rnd\<close> is the sequence of floats that \<open>distr(gen)\<close> yields from the
  default-constructed engine, and the state of the engine is the position in it.
\<close>

definition distr :: "(nat \<Rightarrow> real) \<Rightarrow> nat \<Rightarrow> real \<times> nat" where
  "distr rnd gen = (rnd gen, Suc gen)"

text \<open>Line 42: the reference axis of the local frame.\<close>

definition sample_axis :: "vec3 \<Rightarrow> vec3" where
  "sample_axis w = (if \<bar>vx w\<bar> > 0.1 then Vec3 0 1 0 else Vec3 1 0 0)"

text \<open>Lines 38 to 47: the direction sampled around the normal from rand1 and rand2.\<close>

definition sample_direction :: "vec3 \<Rightarrow> real \<Rightarrow> real \<Rightarrow> vec3" where
  "sample_direction normal rand1 rand2 =
     (let rand2s = sqrt rand2;
          w = Vec3 (vx normal) (vy normal) (vz normal);
          axis = sample_axis w;
          u = normalize (cross axis w);
          v = cross w u
      in normalize (scale (scale u (cos rand1)) rand2s
                    + scale (scale v (sin rand1)) rand2s
                    + scale w (sqrt (1 - rand2))))"

text \<open>
  The same lines 38 to 47 with the invalid float operations written out: the square root
  of a negative number and the normalisation of the zero vector (0 / 0 in every
  coordinate) give NaN in the source, \<open>None\<close> here, and a NaN operand makes the sampled
  direction NaN. On the arguments where the result is \<open>Some\<close> it is the direction of
  \<open>sample_direction\<close> (lemma \<open>sample_direction_checked_Some\<close>).
\<close>

definition sqrt_checked :: "real \<Rightarrow> real option" where
  "sqrt_checked r = (if r < 0 then None else Some (sqrt r))"

definition normalize_checked :: "vec3 \<Rightarrow> vec3 option" where
  "normalize_checked a = (if vlength a = 0 then None else Some (divide_by a (vlength a)))"

definition sample_direction_checked :: "vec3 \<Rightarrow> real \<Rightarrow> real \<Rightarrow> vec3 option" where
  "sample_direction_checked normal rand1 rand2 =
     (case sqrt_checked rand2 of
        None \<Rightarrow> None
      | Some rand2s \<Rightarrow>
          (let w = Vec3 (vx normal) (vy normal) (vz normal);
               axis = sample_axis w
           in (case normalize_checked (cross axis w) of
                 None \<Rightarrow> None
               | Some u \<Rightarrow>
                   (let v = cross w u
                    in (case sqrt_checked (1 - rand2) of
                          None \<Rightarrow> None
                        | Some c \<Rightarrow>
                            normalize_checked (scale (scale u (cos rand1)) rand2s
                                               + scale (scale v (sin rand1)) rand2s
                                               + scale w c))))))"

text \<open>Lines 59 to 73: the ray of the next bounce.\<close>

definition next_ray :: "RTCRay \<Rightarrow> vec3 \<Rightarrow> RTCRay" where
  "next_ray ray newdir =
     ray\<lparr>ray_org := Vec3 (vx (ray_org ray) + ray_tfar ray * vx (ray_dir ray) + EPSILON)
                        (vy (ray_org ray) + ray_tfar ray * vy (ray_dir ray) + EPSILON)
                        (vz (ray_org ray) + ray_tfar ray * vz (ray_dir ray) + EPSILON),
         ray_dir := Vec3 (vx newdir) (vy newdir) (vz newdir),
         ray_tnear := 0,
         ray_tfar := FLT_MAX,
         ray_time := 0,
         ray_mask := 0,
         ray_geomID := RTC_INVALID_GEOMETRY_ID,
         ray_primID := RTC_INVALID_GEOMETRY_ID\<rparr>"

text \<open>
  The loop of lines 25 to 76. The result is what Trace returns together with the number
  of times the loop body was entered, a ghost value the source does not have. The
  throughput, mask in the source, is \<open>thr\<close> (mask is a constant of the word library).
\<close>

function Trace_loop ::
  "RTCScene \<Rightarrow> Material list \<Rightarrow> (nat \<Rightarrow> real) \<Rightarrow> nat \<Rightarrow> nat \<Rightarrow> vec3 \<Rightarrow> vec3 \<Rightarrow> RTCRay
     \<Rightarrow> (error + vec3) \<times> nat" where
  "Trace_loop scene Materials rnd bounce gen color thr ray =
     (if bounce < 8 then
        let hit = rtcIntersect scene ray in
        if ray_geomID hit = RTC_INVALID_GEOMETRY_ID then
          (Inr (color + thr * Vec3 0.5 0.5 0.5), 1)
        else
          let normal = rtcInterpolate2 scene (ray_geomID hit) (ray_primID hit)
                         (ray_u hit) (ray_v hit);
              (d1, gen1) = distr rnd gen;
              rand1 = 2 * PI * d1;
              (rand2, gen2) = distr rnd gen1;
              newdir = sample_direction normal rand1 rand2;
              color1 = color + thr
          in case material_at Materials (ray_geomID hit) of
               Inl e \<Rightarrow> (Inl e, 1)
             | Inr m \<Rightarrow>
                 let thr1 = thr * Vec3 (vx (DiffuseColor m)) (vy (DiffuseColor m))
                                      (vz (DiffuseColor m));
                     thr2 = scale thr1
                               (dot newdir (Vec3 (vx normal) (vy normal) (vz normal)));
                     r = Trace_loop scene Materials rnd (bounce + 1) gen2 color1 thr2
                           (next_ray hit newdir)
                 in (fst r, Suc (snd r))
      else (Inr color, 0))"
  by pat_completeness auto
termination
  by (relation "measure (\<lambda>(scene, Materials, rnd, bounce, gen, color, thr, ray). 8 - bounce)")
    auto

declare Trace_loop.simps [simp del]

definition Trace :: "RTCScene \<Rightarrow> Material list \<Rightarrow> (nat \<Rightarrow> real) \<Rightarrow> RTCRay \<Rightarrow> error + vec3" where
  "Trace scene Materials rnd ray =
     fst (Trace_loop scene Materials rnd 0 0 (Vec3 0 0 0) (Vec3 1 1 1) ray)"

section \<open>The direct-lighting estimator\<close>

text \<open>makeRay of Renderer.cpp (lines 81 to 97); \<open>RTCRay ray{}\<close> starts every field at zero.\<close>

definition makeRay :: "vec3 \<Rightarrow> vec3 \<Rightarrow> RTCRay" where
  "makeRay org dir =
     \<lparr>ray_org = Vec3 (vx org) (vy org) (vz org),
      ray_dir = Vec3 (vx dir) (vy dir) (vz dir),
      ray_tnear = 0,
      ray_tfar = FLT_MAX,
      ray_time = 0,
      ray_mask = - 1,
      ray_geomID = RTC_INVALID_GEOMETRY_ID,
      ray_primID = RTC_INVALID_GEOMETRY_ID,
      ray_u = 0,
      ray_v = 0\<rparr>"

text \<open>intersectScene changes the caller's ray and tells whether it recorded a hit.\<close>

definition intersectScene :: "RTCScene \<Rightarrow> RTCRay \<Rightarrow> bool \<times> RTCRay" where
  "intersectScene scene ray =
     (let ray1 = rtcIntersect scene ray
      in if ray_geomID ray1 \<noteq> RTC_INVALID_GEOMETRY_ID then (True, ray1) else (False, ray1))"

definition shade :: "Material list \<Rightarrow> RTCRay \<Rightarrow> error + vec3" where
  "shade Materials ray =
     (case material_at Materials (ray_geomID ray) of
        Inl e \<Rightarrow> Inl e
      | Inr m \<Rightarrow>
          let color = Vec3 (vx (DiffuseColor m)) (vy (DiffuseColor m)) (vz (DiffuseColor m))
          in Inr (divide_by (pow color gamma) PI))"

definition visibility :: "RTCScene \<Rightarrow> vec3 \<Rightarrow> vec3 \<Rightarrow> real" where
  "visibility scene o' d =
     (let shadowRay = makeRay o' d;
          shadowRay = shadowRay\<lparr>ray_tnear := 0.001\<rparr>;
          shadowRay = shadowRay\<lparr>ray_tfar := 1\<rparr>;
          shadowRay = rtcOccluded scene shadowRay
      in if ray_geomID shadowRay \<noteq> 0 then 1 else 0)"

text \<open>
  traceRay and pathTraceRay take the ray by reference: the result is the radiance and the
  ray as the call leaves it.
\<close>

definition traceRay :: "RTCScene \<Rightarrow> Material list \<Rightarrow> RTCRay \<Rightarrow> error + vec3 \<times> RTCRay" where
  "traceRay scene Materials ray0 =
     (let outgoing = WorldGetBackground ray0;
          (found, ray) = intersectScene scene ray0
      in if found then
           let P = Vec3 (vx (ray_org ray) + vx (ray_dir ray) * ray_tfar ray)
                        (vy (ray_org ray) + vy (ray_dir ray) * ray_tfar ray)
                        (vz (ray_org ray) + vz (ray_dir ray) * ray_tfar ray);
               toLight = Q - P;
               Wi = normalize toLight;
               N = rtcInterpolate2 scene (ray_geomID ray) (ray_primID ray) (ray_u ray) (ray_v ray);
               N = normalize N;
               Power = Vec3 1 1 1;
               distance = vlength toLight;
               Li = divide_by Power (distance * distance)
           in case shade Materials ray of
                Inl e \<Rightarrow> Inl e
              | Inr s \<Rightarrow>
                  Inr (scale (scale (Li * s) (max 0 (dot N Wi))) (visibility scene P toLight),
                       ray)
         else Inr (outgoing, ray))"

definition pathTraceRay :: "RTCScene \<Rightarrow> Material list \<Rightarrow> RTCRay \<Rightarrow> error + vec3 \<times> RTCRay" where
  "pathTraceRay scene Materials ray0 =
     (let outgoing = WorldGetBackground ray0;
          (found, ray) = intersectScene scene ray0
      in if found then
           let P = Vec3 (vx (ray_org ray) + vx (ray_dir ray) * ray_tfar ray)
                        (vy (ray_org ray) + vy (ray_dir ray) * ray_tfar ray)
                        (vz (ray_org ray) + vz (ray_dir ray) * ray_tfar ray);
               toLight = Q - P;
               Wi = normalize toLight;
               N = rtcInterpolate2 scene (ray_geomID ray) (ray_primID ray) (ray_u ray) (ray_v ray);
               N = normalize N;
               Power = Vec3 1 1 1;
               distance = vlength toLight;
               Li = divide_by Power (distance * distance)
           in case shade Materials ray of
                Inl e \<Rightarrow> Inl e
              | Inr s \<Rightarrow>
                  Inr (scale (scale (Li * s) (max 0 (dot N Wi))) (visibility scene P toLight),
                       ray)
         else Inr (outgoing, ray))"

section \<open>A test scene\<close>

text \<open>
  The scene of the concrete instances below: an infinite floor in the plane y = 0,
  geometry 0, with the normal (0, 1, 0). A ray that starts above the floor and points
  downwards hits it; every other ray leaves the scene. In \<open>floor_scene\<close> nothing
  occludes a shadow ray, so rtcOccluded leaves the ray as it is; in
  \<open>floor_scene_occluded\<close> every shadow ray is occluded, and rtcOccluded sets its geomID
  to 0 as Embree does.
\<close>

definition floor_intersect :: "RTCRay \<Rightarrow> RTCRay" where
  "floor_intersect ray =
     (if 0 < vy (ray_org ray) \<and> vy (ray_dir ray) < 0
      then ray\<lparr>ray_tfar := - vy (ray_org ray) / vy (ray_dir ray),
               ray_geomID := 0, ray_primID := 0\<rparr>
      else ray)"

definition floor_scene :: RTCScene where
  "floor_scene =
     \<lparr>rtcIntersect = floor_intersect,
      rtcOccluded = (\<lambda>ray. ray),
      rtcInterpolate2 = (\<lambda>g p u v. Vec3 0 1 0)\<rparr>"

definition floor_scene_occluded :: RTCScene where
  "floor_scene_occluded =
     \<lparr>rtcIntersect = floor_intersect,
      rtcOccluded = (\<lambda>ray. ray\<lparr>ray_geomID := 0\<rparr>),
      rtcInterpolate2 = (\<lambda>g p u v. Vec3 0 1 0)\<rparr>"

text \<open>A ray from one unit above the floor straight down, as makeRay builds it.\<close>

definition down_ray :: RTCRay where
  "down_ray = makeRay (Vec3 0 1 0) (Vec3 0 (- 1) 0)"

text \<open>A scene in which every query hits geometry 0, whatever the ray.\<close>

definition closed_scene :: RTCScene where
  "closed_scene =
     \<lparr>rtcIntersect = (\<lambda>ray. ray\<lparr>ray_tfar := 1, ray_geomID := 0, ray_primID := 0\<rparr>),
      rtcOccluded = (\<lambda>ray. ray\<lparr>ray_geomID := 0\<rparr>),
      rtcInterpolate2 = (\<lambda>g p u v. Vec3 0 1 0)\<rparr>"

text \<open>
  The geometry query of a scene reports a hit on every ray, with a geometry that has a
  material.
\<close>

definition every_query_hits :: "RTCScene \<Rightarrow> Material list \<Rightarrow> bool" where
  "every_query_hits scene Materials \<longleftrightarrow>
     (\<forall>r. ray_geomID (rtcIntersect scene r) \<noteq> RTC_INVALID_GEOMETRY_ID
          \<and> unat (ray_geomID (rtcIntersect scene r)) < length Materials)"


section \<open>One pass of the bounce loop\<close>

lemma Trace_loop_miss:
  assumes "bounce < 8"
    and "ray_geomID (rtcIntersect scene ray) = RTC_INVALID_GEOMETRY_ID"
  shows "Trace_loop scene Materials rnd bounce gen color thr ray
           = (Inr (color + thr * Vec3 0.5 0.5 0.5), 1)"
  using assms by (simp add: Trace_loop.simps [of scene Materials rnd bounce])

lemma Trace_loop_cap:
  assumes "8 \<le> bounce"
  shows "Trace_loop scene Materials rnd bounce gen color thr ray = (Inr color, 0)"
  using assms by (simp add: Trace_loop.simps [of scene Materials rnd bounce])

lemma Trace_loop_hit:
  assumes "bounce < 8"
    and "hit = rtcIntersect scene ray"
    and "ray_geomID hit \<noteq> RTC_INVALID_GEOMETRY_ID"
    and "material_at Materials (ray_geomID hit) = Inr m"
    and "normal = rtcInterpolate2 scene (ray_geomID hit) (ray_primID hit) (ray_u hit) (ray_v hit)"
    and "newdir = sample_direction normal (2 * PI * rnd gen) (rnd (Suc gen))"
    and "r = Trace_loop scene Materials rnd (Suc bounce) (Suc (Suc gen)) (color + thr)
               (scale (thr * DiffuseColor m) (dot newdir normal)) (next_ray hit newdir)"
  shows "Trace_loop scene Materials rnd bounce gen color thr ray = (fst r, Suc (snd r))"
  using assms
  by (simp add: Trace_loop.simps [of scene Materials rnd bounce] distr_def Let_def)

lemma Trace_loop_fault:
  assumes "bounce < 8"
    and "hit = rtcIntersect scene ray"
    and "ray_geomID hit \<noteq> RTC_INVALID_GEOMETRY_ID"
    and "material_at Materials (ray_geomID hit) = Inl e"
  shows "Trace_loop scene Materials rnd bounce gen color thr ray = (Inl e, 1)"
  using assms
  by (simp add: Trace_loop.simps [of scene Materials rnd bounce] distr_def Let_def)

lemma Trace_loop_iterations_le:
  "snd (Trace_loop scene Materials rnd bounce gen color thr ray) \<le> 8 - bounce"
proof (induction "8 - bounce" arbitrary: bounce gen color thr ray)
  case 0
  then have "8 \<le> bounce" by simp
  then show ?case by (simp add: Trace_loop_cap)
next
  case (Suc n)
  then have lt: "bounce < 8" and n: "n = 8 - Suc bounce" by simp_all
  define hit where "hit = rtcIntersect scene ray"
  show ?case
  proof (cases "ray_geomID hit = RTC_INVALID_GEOMETRY_ID")
    case True
    with lt show ?thesis by (simp add: Trace_loop_miss hit_def)
  next
    case False
    show ?thesis
    proof (cases "material_at Materials (ray_geomID hit)")
      case (Inl e)
      with lt show ?thesis
        by (simp add: Trace_loop_fault [OF lt hit_def False])
    next
      case (Inr m)
      define normal where
        "normal = rtcInterpolate2 scene (ray_geomID hit) (ray_primID hit) (ray_u hit) (ray_v hit)"
      define newdir where "newdir = sample_direction normal (2 * PI * rnd gen) (rnd (Suc gen))"
      define r where
        "r = Trace_loop scene Materials rnd (Suc bounce) (Suc (Suc gen)) (color + thr)
               (scale (thr * DiffuseColor m) (dot newdir normal)) (next_ray hit newdir)"
      have "snd (Trace_loop scene Materials rnd bounce gen color thr ray) = Suc (snd r)"
        by (simp add: Trace_loop_hit [OF lt hit_def False Inr normal_def newdir_def r_def])
      also have "\<dots> \<le> Suc (8 - Suc bounce)"
        unfolding r_def using Suc.hyps(1) [OF n] by simp
      also have "\<dots> = 8 - bounce" using lt by simp
      finally show ?thesis .
    qed
  qed
qed

lemma Trace_loop_all_hit:
  assumes "every_query_hits scene Materials"
  shows "snd (Trace_loop scene Materials rnd bounce gen color thr ray) = 8 - bounce
         \<and> (\<exists>c. fst (Trace_loop scene Materials rnd bounce gen color thr ray) = Inr c)"
proof (induction "8 - bounce" arbitrary: bounce gen color thr ray)
  case 0
  then have "8 \<le> bounce" by simp
  then show ?case by (simp add: Trace_loop_cap)
next
  case (Suc n)
  then have lt: "bounce < 8" and n: "n = 8 - Suc bounce" by simp_all
  define hit where "hit = rtcIntersect scene ray"
  have nz: "ray_geomID hit \<noteq> RTC_INVALID_GEOMETRY_ID"
    and m: "material_at Materials (ray_geomID hit) = Inr (Materials ! unat (ray_geomID hit))"
    using assms by (simp_all add: every_query_hits_def hit_def material_at_def)
  show ?case
    using Suc.hyps(1) [OF n] lt
    by (simp add: Trace_loop_hit [OF lt hit_def nz m refl refl refl])
qed

section \<open>Facts about the test scene\<close>

lemma floor_hit_down_ray:
  "rtcIntersect floor_scene down_ray
     = down_ray\<lparr>ray_tfar := 1, ray_geomID := 0, ray_primID := 0\<rparr>"
  by (simp add: floor_scene_def floor_intersect_def down_ray_def makeRay_def)

lemma floor_normal: "rtcInterpolate2 floor_scene g p u v = Vec3 0 1 0"
  by (simp add: floor_scene_def)

lemma sample_direction_up: "sample_direction (Vec3 0 1 0) (2 * PI * 0) 0 = Vec3 0 1 0"
  by (simp add: sample_direction_def sample_axis_def normalize_def divide_by_def vlength_def
      dot_def cross_def scale_def plus_vec3_def Let_def)

lemma floor_miss_after_bounce:
  "ray_geomID (rtcIntersect floor_scene
      (next_ray (down_ray\<lparr>ray_tfar := 1, ray_geomID := 0, ray_primID := 0\<rparr>) (Vec3 0 1 0)))
     = RTC_INVALID_GEOMETRY_ID"
  by (simp add: next_ray_def floor_scene_def floor_intersect_def down_ray_def makeRay_def)

lemma invalid_id_nonzero: "RTC_INVALID_GEOMETRY_ID \<noteq> 0"
  by (simp add: RTC_INVALID_GEOMETRY_ID_def)

section \<open>The claims about Trace\<close>

text \<open>
  C3. At a bounce whose geometry query reports no hit, Trace leaves the loop at once (the
  body is entered this one time) and returns color + mask * (0.5, 0.5, 0.5), for every
  bounce index below the cap and every accumulated color and throughput.
\<close>

theorem Trace_miss_returns_background:
  assumes "bounce < 8"
    and "ray_geomID (rtcIntersect scene ray) = RTC_INVALID_GEOMETRY_ID"
  shows "Trace_loop scene Materials rnd bounce gen color thr ray
           = (Inr (color + thr * Vec3 0.5 0.5 0.5), 1)"
  using assms by (rule Trace_loop_miss)

theorem Trace_miss_returns_background_witness:
  "(5 :: nat) < 8
   \<and> ray_geomID (rtcIntersect floor_scene (makeRay (Vec3 0 1 0) (Vec3 0 1 0)))
       = RTC_INVALID_GEOMETRY_ID
   \<and> Trace_loop floor_scene [] (\<lambda>k. 0) 5 10 (Vec3 1 2 3) (Vec3 1 1 4)
         (makeRay (Vec3 0 1 0) (Vec3 0 1 0))
       = (Inr (Vec3 1 2 3 + Vec3 1 1 4 * Vec3 0.5 0.5 0.5), 1)"
proof -
  have b: "(5 :: nat) < 8" by simp
  have miss: "ray_geomID (rtcIntersect floor_scene (makeRay (Vec3 0 1 0) (Vec3 0 1 0)))
                = RTC_INVALID_GEOMETRY_ID"
    by (simp add: floor_scene_def floor_intersect_def makeRay_def)
  show ?thesis
    using b miss Trace_miss_returns_background [OF b miss] by simp
qed


lemma closed_scene_every_query_hits:
  "every_query_hits closed_scene [\<lparr>DiffuseColor = Vec3 0 0 0\<rparr>]"
  by (simp add: every_query_hits_def closed_scene_def invalid_id_nonzero [symmetric])

text \<open>
  C2. The loop body of Trace is entered at most 8 times, whatever the scene, the materials,
  the random numbers and the ray. At the cap the loop returns the accumulated color without
  looking at the throughput. When every geometry query hits, the body is entered exactly 8
  times for every throughput (a zero throughput included) and Trace returns a color.
\<close>

theorem Trace_bounce_cap:
  "snd (Trace_loop scene Materials rnd 0 gen color thr ray) \<le> 8
   \<and> Trace_loop scene Materials rnd 8 gen color thr ray = (Inr color, 0)
   \<and> (every_query_hits scene Materials \<longrightarrow>
        snd (Trace_loop scene Materials rnd 0 gen color thr ray) = 8
        \<and> (\<exists>c. fst (Trace_loop scene Materials rnd 0 gen color thr ray) = Inr c))"
proof (intro conjI impI)
  show "snd (Trace_loop scene Materials rnd 0 gen color thr ray) \<le> 8"
    using Trace_loop_iterations_le [of scene Materials rnd 0 gen color thr ray] by simp
  show "Trace_loop scene Materials rnd 8 gen color thr ray = (Inr color, 0)"
    by (simp add: Trace_loop_cap)
next
  assume h: "every_query_hits scene Materials"
  show "snd (Trace_loop scene Materials rnd 0 gen color thr ray) = 8"
    using Trace_loop_all_hit [OF h, of rnd 0 gen color thr ray] by simp
  show "\<exists>c. fst (Trace_loop scene Materials rnd 0 gen color thr ray) = Inr c"
    using Trace_loop_all_hit [OF h, of rnd 0 gen color thr ray] by simp
qed

theorem Trace_bounce_cap_witness:
  "every_query_hits closed_scene [\<lparr>DiffuseColor = Vec3 0 0 0\<rparr>]
   \<and> snd (Trace_loop closed_scene [\<lparr>DiffuseColor = Vec3 0 0 0\<rparr>] (\<lambda>k. 0) 0 0
            (Vec3 0 0 0) (Vec3 0 0 0) down_ray) = 8"
  using closed_scene_every_query_hits
    Trace_bounce_cap [of closed_scene "[\<lparr>DiffuseColor = Vec3 0 0 0\<rparr>]" "\<lambda>k. 0" 0
      "Vec3 0 0 0" "Vec3 0 0 0" down_ray]
  by simp

lemma Trace_closed_scene_black:
  "Trace_loop closed_scene [\<lparr>DiffuseColor = Vec3 0 0 0\<rparr>] rnd 0 0 (Vec3 0 0 0) (Vec3 1 1 1) ray
     = (Inr (Vec3 1 1 1), 8)"
  by (simp add: Trace_loop.simps closed_scene_def Let_def distr_def material_at_def
      invalid_id_nonzero [symmetric] plus_vec3_def times_vec3_def scale_def)


text \<open>
  C1. A bounce that hits banks the unmodified throughput into the color and only then
  multiplies the throughput by the diffuse color and by dot(newdir, normal). So a hit
  followed by a miss returns (color + mask) + (mask * C * cosTheta) * background from any
  state of the loop, and Trace on a camera ray (color 0, mask0 = (1,1,1), a fresh engine)
  returns mask0 + (mask0 * C * cosTheta) * background.
\<close>

theorem Trace_hit_then_miss:
  assumes "bounce < 7"
    and "hit = rtcIntersect scene ray"
    and "ray_geomID hit \<noteq> RTC_INVALID_GEOMETRY_ID"
    and "material_at Materials (ray_geomID hit) = Inr m"
    and "C = DiffuseColor m"
    and "normal = rtcInterpolate2 scene (ray_geomID hit) (ray_primID hit) (ray_u hit) (ray_v hit)"
    and "newdir = sample_direction normal (2 * PI * rnd gen) (rnd (Suc gen))"
    and "cosTheta = dot newdir normal"
    and "ray_geomID (rtcIntersect scene (next_ray hit newdir)) = RTC_INVALID_GEOMETRY_ID"
    and "mask0 = Vec3 1 1 1"
    and "background = Vec3 0.5 0.5 0.5"
  shows "Trace_loop scene Materials rnd bounce gen color thr ray
           = (Inr ((color + thr) + scale (thr * C) cosTheta * background), 2)
         \<and> (bounce = 0 \<and> gen = 0 \<longrightarrow>
              Trace scene Materials rnd ray
                = Inr (mask0 + scale (mask0 * C) cosTheta * background))"
proof -
  have lt: "bounce < 8" and lt': "Suc bounce < 8" using assms(1) by simp_all
  have step: "Trace_loop scene Materials rnd b gen c t ray
                = (Inr ((c + t) + scale (t * C) cosTheta * background), 2)"
    if "b < 7" for b c t
  proof -
    have b8: "b < 8" and sb8: "Suc b < 8" using that by simp_all
    have miss: "Trace_loop scene Materials rnd (Suc b) (Suc (Suc gen)) (c + t)
                  (scale (t * DiffuseColor m) (dot newdir normal)) (next_ray hit newdir)
                = (Inr ((c + t) + scale (t * DiffuseColor m) (dot newdir normal)
                          * Vec3 0.5 0.5 0.5), 1)"
      by (rule Trace_loop_miss [OF sb8 assms(9)])
    show ?thesis
      by (simp add: Trace_loop_hit [OF b8 assms(2) assms(3) assms(4) assms(6) assms(7) refl]
          miss assms(5) assms(8) assms(11))
  qed
  show ?thesis
    using step [OF assms(1), of color thr] step [of 0 "Vec3 0 0 0" mask0]
    by (auto simp add: Trace_def assms(10) plus_vec3_def)
qed

theorem Trace_hit_then_miss_witness:
  "(0 :: nat) < 7
   \<and> ray_geomID (rtcIntersect floor_scene down_ray) \<noteq> RTC_INVALID_GEOMETRY_ID
   \<and> material_at [\<lparr>DiffuseColor = Vec3 0.8 0.6 0.4\<rparr>]
         (ray_geomID (rtcIntersect floor_scene down_ray))
       = Inr \<lparr>DiffuseColor = Vec3 0.8 0.6 0.4\<rparr>
   \<and> ray_geomID (rtcIntersect floor_scene
         (next_ray (rtcIntersect floor_scene down_ray)
            (sample_direction (Vec3 0 1 0) (2 * PI * 0) 0)))
       = RTC_INVALID_GEOMETRY_ID
   \<and> Trace floor_scene [\<lparr>DiffuseColor = Vec3 0.8 0.6 0.4\<rparr>] (\<lambda>k. 0) down_ray
       = Inr (Vec3 1 1 1
              + scale (Vec3 1 1 1 * Vec3 0.8 0.6 0.4)
                  (dot (sample_direction (Vec3 0 1 0) (2 * PI * 0) 0) (Vec3 0 1 0))
                * Vec3 0.5 0.5 0.5)"
proof -
  let ?hit = "rtcIntersect floor_scene down_ray"
  let ?m = "\<lparr>DiffuseColor = Vec3 0.8 0.6 0.4\<rparr>"
  let ?newdir = "sample_direction (Vec3 0 1 0) (2 * PI * 0) 0"
  have b: "(0 :: nat) < 7" by simp
  have h: "ray_geomID ?hit \<noteq> RTC_INVALID_GEOMETRY_ID"
    unfolding floor_hit_down_ray by (simp add: invalid_id_nonzero [symmetric])
  have m: "material_at [?m] (ray_geomID ?hit) = Inr ?m"
    unfolding floor_hit_down_ray by (simp add: material_at_def)
  have n: "Vec3 0 1 0 = rtcInterpolate2 floor_scene (ray_geomID ?hit) (ray_primID ?hit)
                          (ray_u ?hit) (ray_v ?hit)"
    by (simp add: floor_normal)
  have d: "?newdir = sample_direction (Vec3 0 1 0) (2 * PI * (\<lambda>k. 0) 0) ((\<lambda>k. 0) (Suc 0))"
    by simp
  have miss: "ray_geomID (rtcIntersect floor_scene (next_ray ?hit ?newdir))
                = RTC_INVALID_GEOMETRY_ID"
    unfolding floor_hit_down_ray sample_direction_up by (rule floor_miss_after_bounce)
  show ?thesis
    using b h m miss
      Trace_hit_then_miss [OF b refl h m refl n d refl miss refl refl,
        where color = "Vec3 0 0 0" and thr = "Vec3 1 1 1"]
    by simp
qed

text \<open>
  C4 (as the code has it). After a bounce that hits, Trace goes on with a ray whose
  origin is the hit point (the origin plus tfar times the direction of the ray that hit)
  plus EPSILON = 0.00003 in each of the three coordinates, a fixed offset that does not
  depend on the sampled direction; its direction is the sampled direction, tnear is 0 and
  tfar is the largest finite float.
\<close>

theorem Trace_next_ray:
  assumes "bounce < 8"
    and "hit = rtcIntersect scene ray"
    and "ray_geomID hit \<noteq> RTC_INVALID_GEOMETRY_ID"
    and "material_at Materials (ray_geomID hit) = Inr m"
    and "normal = rtcInterpolate2 scene (ray_geomID hit) (ray_primID hit) (ray_u hit) (ray_v hit)"
    and "newdir = sample_direction normal (2 * PI * rnd gen) (rnd (Suc gen))"
    and "P = ray_org hit + scale (ray_dir hit) (ray_tfar hit)"
    and "next = next_ray hit newdir"
    and "r = Trace_loop scene Materials rnd (Suc bounce) (Suc (Suc gen)) (color + thr)
               (scale (thr * DiffuseColor m) (dot newdir normal)) next"
  shows "Trace_loop scene Materials rnd bounce gen color thr ray = (fst r, Suc (snd r))
         \<and> ray_org next = P + Vec3 EPSILON EPSILON EPSILON
         \<and> EPSILON = 3 / 100000
         \<and> ray_dir next = newdir
         \<and> ray_tnear next = 0
         \<and> ray_tfar next = FLT_MAX"
proof (intro conjI)
  show "Trace_loop scene Materials rnd bounce gen color thr ray = (fst r, Suc (snd r))"
    using assms(8) assms(9)
    by (simp add: Trace_loop_hit [OF assms(1) assms(2) assms(3) assms(4) assms(5) assms(6) refl])
  show "ray_org next = P + Vec3 EPSILON EPSILON EPSILON"
    by (simp add: assms(7) assms(8) next_ray_def plus_vec3_def scale_def mult.commute)
  show "EPSILON = 3 / 100000"
    by (simp add: EPSILON_def)
  show "ray_dir next = newdir" "ray_tnear next = 0" "ray_tfar next = FLT_MAX"
    by (simp_all add: assms(8) next_ray_def)
qed

theorem Trace_next_ray_witness:
  "(0 :: nat) < 8
   \<and> ray_geomID (rtcIntersect floor_scene down_ray) \<noteq> RTC_INVALID_GEOMETRY_ID
   \<and> material_at [\<lparr>DiffuseColor = Vec3 0.8 0.6 0.4\<rparr>]
         (ray_geomID (rtcIntersect floor_scene down_ray))
       = Inr \<lparr>DiffuseColor = Vec3 0.8 0.6 0.4\<rparr>
   \<and> ray_org (next_ray (rtcIntersect floor_scene down_ray)
         (sample_direction (Vec3 0 1 0) (2 * PI * 0) 0))
       = (ray_org (rtcIntersect floor_scene down_ray)
          + scale (ray_dir (rtcIntersect floor_scene down_ray))
              (ray_tfar (rtcIntersect floor_scene down_ray)))
         + Vec3 EPSILON EPSILON EPSILON"
proof -
  let ?hit = "rtcIntersect floor_scene down_ray"
  let ?m = "\<lparr>DiffuseColor = Vec3 0.8 0.6 0.4\<rparr>"
  let ?newdir = "sample_direction (Vec3 0 1 0) (2 * PI * 0) 0"
  have b: "(0 :: nat) < 8" by simp
  have h: "ray_geomID ?hit \<noteq> RTC_INVALID_GEOMETRY_ID"
    unfolding floor_hit_down_ray by (simp add: invalid_id_nonzero [symmetric])
  have m: "material_at [?m] (ray_geomID ?hit) = Inr ?m"
    unfolding floor_hit_down_ray by (simp add: material_at_def)
  have n: "Vec3 0 1 0 = rtcInterpolate2 floor_scene (ray_geomID ?hit) (ray_primID ?hit)
                          (ray_u ?hit) (ray_v ?hit)"
    by (simp add: floor_normal)
  have d: "?newdir = sample_direction (Vec3 0 1 0) (2 * PI * (\<lambda>k. 0) 0) ((\<lambda>k. 0) (Suc 0))"
    by simp
  show ?thesis
    using b h m
      Trace_next_ray [OF b refl h m n d refl refl refl,
        where color = "Vec3 0 0 0" and thr = "Vec3 1 1 1"]
    by simp
qed

text \<open>
  The offset is along no direction of length 1: the next origin differs from the hit point
  moved by EPSILON along the sampled direction whatever the random numbers were.
\<close>

lemma offset_not_along_unit_direction:
  assumes "vlength d = 1"
  shows "P + Vec3 EPSILON EPSILON EPSILON \<noteq> P + scale d EPSILON"
proof
  assume eq: "P + Vec3 EPSILON EPSILON EPSILON = P + scale d EPSILON"
  then have "vx d = 1" and "vy d = 1" and "vz d = 1"
    by (simp_all add: plus_vec3_def scale_def EPSILON_def)
  then have "dot d d = 3"
    by (simp add: dot_def)
  then have "vlength d = sqrt 3"
    by (simp add: vlength_def)
  with assms have "sqrt 3 = sqrt 1" by simp
  then show False by (simp only: real_sqrt_eq_iff)
qed

text \<open>
  C4 as the spec states it fails: on the floor scene the sampled direction is (0, 1, 0),
  the hit point is the origin, and the next ray starts at (EPSILON, EPSILON, EPSILON), not
  at the hit point moved by EPSILON along the sampled direction, which is (0, EPSILON, 0).
\<close>

theorem Trace_next_ray_offset_counterexample:
  "sample_direction (Vec3 0 1 0) (2 * PI * 0) 0 = Vec3 0 1 0
   \<and> ray_org (rtcIntersect floor_scene down_ray)
       + scale (ray_dir (rtcIntersect floor_scene down_ray))
           (ray_tfar (rtcIntersect floor_scene down_ray))
       = Vec3 0 0 0
   \<and> ray_org (next_ray (rtcIntersect floor_scene down_ray)
         (sample_direction (Vec3 0 1 0) (2 * PI * 0) 0))
       \<noteq> (ray_org (rtcIntersect floor_scene down_ray)
           + scale (ray_dir (rtcIntersect floor_scene down_ray))
               (ray_tfar (rtcIntersect floor_scene down_ray)))
          + scale (sample_direction (Vec3 0 1 0) (2 * PI * 0) 0) EPSILON"
  unfolding floor_hit_down_ray sample_direction_up
  by (simp add: next_ray_def down_ray_def makeRay_def plus_vec3_def scale_def EPSILON_def)


section \<open>The sampling frame\<close>

lemma dot_cross_second: "dot (cross a b) b = 0"
  by (simp add: dot_def cross_def algebra_simps)

lemma dot_cross_first: "dot (cross a b) a = 0"
  by (simp add: dot_def cross_def algebra_simps)

lemma dot_divide_by: "dot (divide_by a k) b = dot a b / k"
  by (simp add: dot_def divide_by_def add_divide_distrib)

lemma dot_plus: "dot (a + b) c = dot a c + dot b c"
  by (simp add: dot_def plus_vec3_def algebra_simps)

lemma dot_scale: "dot (scale a k) b = k * dot a b"
  by (simp add: dot_def scale_def algebra_simps)

lemma dot_self_nonneg: "0 \<le> dot a a"
  by (simp add: dot_def)

lemma dot_self_zero: "dot a a = 0 \<longleftrightarrow> a = Vec3 0 0 0"
proof (cases a)
  case (Vec3 p q r)
  then show ?thesis
    by (simp add: dot_def add_nonneg_eq_0_iff)
qed

lemma vlength_nonneg: "0 \<le> vlength a"
  by (simp add: vlength_def dot_self_nonneg)

lemma vlength_zero: "vlength a = 0 \<longleftrightarrow> a = Vec3 0 0 0"
  by (simp add: vlength_def dot_self_zero)

lemma vlength_normalize:
  assumes "a \<noteq> Vec3 0 0 0"
  shows "vlength (normalize a) = 1"
proof -
  have pos: "0 < vlength a"
    using vlength_nonneg [of a] vlength_zero [of a] assms by linarith
  have "dot (normalize a) (normalize a) = dot a a / (vlength a * vlength a)"
    by (simp add: normalize_def dot_def divide_by_def add_divide_distrib)
  also have "vlength a * vlength a = dot a a"
    by (simp add: vlength_def dot_self_nonneg)
  also have "dot a a / dot a a = 1"
    using assms by (simp add: dot_self_zero)
  finally show ?thesis by (simp add: vlength_def)
qed

lemma sample_axis_not_parallel:
  assumes "vlength w = 1"
  shows "cross (sample_axis w) w \<noteq> Vec3 0 0 0"
proof (cases w)
  case (Vec3 p q r)
  have one: "p * p + q * q + r * r = 1"
    using assms Vec3 by (simp add: vlength_def dot_def)
  show ?thesis
  proof (cases "\<bar>p\<bar> > 0.1")
    case True
    then have "p \<noteq> 0" by auto
    with True Vec3 show ?thesis by (simp add: sample_axis_def cross_def)
  next
    case False
    have "\<not> (q = 0 \<and> r = 0)"
    proof
      assume "q = 0 \<and> r = 0"
      with one have "p * p = 1" by simp
      then have "\<bar>p\<bar> = 1" by (simp add: abs_square_eq_1 power2_eq_square [symmetric])
      with False show False by simp
    qed
    with False Vec3 show ?thesis by (auto simp add: sample_axis_def cross_def)
  qed
qed

text \<open>
  C5 (as the code has it). The reference axis of the sampling frame is chosen by the x
  component of the normal alone: world-up (0, 1, 0) when its absolute value exceeds 0.1,
  world-right (1, 0, 0) otherwise. A normal aligned with world-up has x = 0 and gets
  world-right, and for a unit normal the axis chosen is never parallel to the normal.
\<close>

theorem sample_axis_by_x_component:
  "sample_axis w = (if \<bar>vx w\<bar> > 1 / 10 then Vec3 0 1 0 else Vec3 1 0 0)
   \<and> sample_axis (Vec3 0 k 0) = Vec3 1 0 0
   \<and> (vlength w = 1 \<longrightarrow> cross (sample_axis w) w \<noteq> Vec3 0 0 0)"
proof (intro conjI impI)
  show "sample_axis w = (if \<bar>vx w\<bar> > 1 / 10 then Vec3 0 1 0 else Vec3 1 0 0)"
    by (simp add: sample_axis_def)
  show "sample_axis (Vec3 0 k 0) = Vec3 1 0 0"
    by (simp add: sample_axis_def)
  show "cross (sample_axis w) w \<noteq> Vec3 0 0 0" if "vlength w = 1"
    using that by (rule sample_axis_not_parallel)
qed

theorem sample_axis_by_x_component_witness:
  "vlength (Vec3 0 0 1) = 1
   \<and> sample_axis (Vec3 0 0 1) = Vec3 1 0 0
   \<and> cross (sample_axis (Vec3 0 0 1)) (Vec3 0 0 1) \<noteq> Vec3 0 0 0"
proof -
  have unit: "vlength (Vec3 0 0 1) = 1"
    by (simp add: vlength_def dot_def)
  note t = sample_axis_by_x_component [of "Vec3 0 0 1" 0]
  have axis: "sample_axis (Vec3 0 0 1) = Vec3 1 0 0"
    using t by simp
  have "cross (sample_axis (Vec3 0 0 1)) (Vec3 0 0 1) \<noteq> Vec3 0 0 0"
    using t unit by blast
  with unit axis show ?thesis by blast
qed

text \<open>
  C5 as the spec states it fails: the unit normal (0, 0, 1) is at a right angle to
  world-up, as far from aligned with it as a direction can be, and its reference axis is
  world-right, not world-up.
\<close>

theorem sample_axis_counterexample:
  "vlength (Vec3 0 0 1) = 1
   \<and> dot (Vec3 0 0 1) (Vec3 0 1 0) = 0
   \<and> sample_axis (Vec3 0 0 1) = Vec3 1 0 0
   \<and> sample_axis (Vec3 0 0 1) \<noteq> Vec3 0 1 0"
  by (simp add: vlength_def dot_def sample_axis_def)

lemma sample_direction_checked_degenerate:
  assumes "cross (sample_axis normal) normal = Vec3 0 0 0"
  shows "sample_direction_checked normal rand1 rand2 = None"
  using assms
  by (simp add: sample_direction_checked_def normalize_checked_def vlength_zero Let_def
      split: option.split)

lemma sample_direction_checked_Some:
  assumes "sample_direction_checked normal rand1 rand2 = Some d"
  shows "d = sample_direction normal rand1 rand2"
  using assms
  by (auto simp add: sample_direction_checked_def sample_direction_def sqrt_checked_def
      normalize_checked_def normalize_def Let_def split: option.splits if_splits)

text \<open>
  C6 (as the code has it). For random inputs d1 and d2 in [0, 1) (rand1 is 2 * PI * d1,
  rand2 is d2) and a shading normal to which the reference axis is not parallel (every
  unit normal is such, lemma \<open>sample_axis_not_parallel\<close>), no operation of the
  construction is invalid, the direction that Trace samples has length 1 and its dot
  product with the normal is positive, so it lies in the hemisphere of the normal.
\<close>

theorem sample_direction_in_hemisphere:
  assumes "0 \<le> d1" and "d1 < 1" and "0 \<le> d2" and "d2 < 1"
    and "cross (sample_axis normal) normal \<noteq> Vec3 0 0 0"
    and "newdir = sample_direction normal (2 * PI * d1) d2"
  shows "sample_direction_checked normal (2 * PI * d1) d2 = Some newdir
         \<and> vlength newdir = 1
         \<and> 0 < dot newdir normal
         \<and> 0 \<le> dot newdir normal"
proof -
  define a where "a = cross (sample_axis normal) normal"
  define u where "u = divide_by a (vlength a)"
  define s where
    "s = scale (scale u (cos (2 * PI * d1))) (sqrt d2)
         + scale (scale (cross normal u) (sin (2 * PI * d1))) (sqrt d2)
         + scale normal (sqrt (1 - d2))"
  have la: "vlength a \<noteq> 0"
    using assms(5) by (simp add: a_def vlength_zero)
  have nd: "newdir = divide_by s (vlength s)"
    by (simp add: assms(6) sample_direction_def Let_def normalize_def s_def u_def a_def)
  have c3: "0 < sqrt (1 - d2)"
    using assms(4) by simp
  have u0: "dot u normal = 0"
    by (simp add: u_def a_def dot_divide_by dot_cross_second)
  have v0: "dot (cross normal u) normal = 0"
    by (rule dot_cross_first)
  have sn: "dot s normal = sqrt (1 - d2) * dot normal normal"
    by (simp add: s_def dot_plus dot_scale u0 v0)
  have "normal \<noteq> Vec3 0 0 0"
    using assms(5) by (auto simp add: cross_def)
  then have nn: "0 < dot normal normal"
    using dot_self_nonneg [of normal] dot_self_zero [of normal] by linarith
  then have pos: "0 < dot s normal"
    unfolding sn using c3 by simp
  have s0: "s \<noteq> Vec3 0 0 0"
  proof
    assume "s = Vec3 0 0 0"
    then have "dot s normal = 0" by (simp add: dot_def)
    with pos show False by simp
  qed
  then have ls: "0 < vlength s"
    using vlength_nonneg [of s] vlength_zero [of s] by linarith
  have checked: "sample_direction_checked normal (2 * PI * d1) d2 = Some newdir"
    using assms(3) assms(4) la ls
    by (simp add: sample_direction_checked_def sqrt_checked_def normalize_checked_def Let_def
        nd s_def u_def a_def)
  have d: "dot newdir normal = sqrt (1 - d2) * dot normal normal / vlength s"
    by (simp add: nd dot_divide_by sn)
  have strict: "0 < dot newdir normal"
    unfolding d using c3 nn ls by simp
  have unit: "vlength newdir = 1"
    using vlength_normalize [OF s0] by (simp add: nd normalize_def)
  from checked unit strict show ?thesis by simp
qed

theorem sample_direction_in_hemisphere_witness:
  "(0 :: real) \<le> 0 \<and> (0 :: real) < 1
   \<and> cross (sample_axis (Vec3 0 1 0)) (Vec3 0 1 0) \<noteq> Vec3 0 0 0
   \<and> sample_direction_checked (Vec3 0 1 0) (2 * PI * 0) 0
       = Some (sample_direction (Vec3 0 1 0) (2 * PI * 0) 0)
   \<and> vlength (sample_direction (Vec3 0 1 0) (2 * PI * 0) 0) = 1
   \<and> 0 < dot (sample_direction (Vec3 0 1 0) (2 * PI * 0) 0) (Vec3 0 1 0)"
proof -
  have z: "(0 :: real) \<le> 0" and o: "(0 :: real) < 1" by simp_all
  have a: "cross (sample_axis (Vec3 0 1 0)) (Vec3 0 1 0) \<noteq> Vec3 0 0 0"
    by (simp add: sample_axis_def cross_def)
  show ?thesis
    using z o a sample_direction_in_hemisphere [OF z o z o a refl]
    by blast
qed

text \<open>
  C6 as the spec states it fails for a shading normal parallel to its reference axis. The
  normal (0.05, 0, 0) has the axis world-right, the cross product of the two is the zero
  vector, line 43 normalises it (0 / 0) and the sampled direction is not a number, for the
  random inputs 0 and 0 as for all others: no direction in the hemisphere is sampled.
\<close>

theorem sample_direction_degenerate_counterexample:
  "sample_axis (Vec3 0.05 0 0) = Vec3 1 0 0
   \<and> cross (sample_axis (Vec3 0.05 0 0)) (Vec3 0.05 0 0) = Vec3 0 0 0
   \<and> normalize_checked (cross (sample_axis (Vec3 0.05 0 0)) (Vec3 0.05 0 0)) = None
   \<and> sample_direction_checked (Vec3 0.05 0 0) (2 * PI * 0) 0 = None"
proof -
  have axis: "sample_axis (Vec3 0.05 0 0) = Vec3 1 0 0"
    by (simp add: sample_axis_def)
  have c: "cross (sample_axis (Vec3 0.05 0 0)) (Vec3 0.05 0 0) = Vec3 0 0 0"
    unfolding axis by (simp add: cross_def)
  have n: "normalize_checked (cross (sample_axis (Vec3 0.05 0 0)) (Vec3 0.05 0 0)) = None"
    unfolding c by (simp add: normalize_checked_def vlength_def dot_def)
  have "sample_direction_checked (Vec3 0.05 0 0) (2 * PI * 0) 0 = None"
    by (rule sample_direction_checked_degenerate [OF c])
  with axis c n show ?thesis by simp
qed

section \<open>The direct-lighting estimator and the shading model\<close>

lemma PI_pos: "0 < PI"
  by (simp add: PI_def)

lemma shade_in_range:
  assumes "material_at Materials (ray_geomID ray) = Inr m"
  shows "shade Materials ray = Inr (divide_by (pow (DiffuseColor m) gamma) PI)"
  using assms by (simp add: shade_def)

lemma visibility_unoccluded:
  assumes "rtcOccluded scene ((makeRay p d)\<lparr>ray_tnear := 0.001, ray_tfar := 1\<rparr>)
             = (makeRay p d)\<lparr>ray_tnear := 0.001, ray_tfar := 1\<rparr>"
  shows "visibility scene p d = 1"
proof -
  have "ray_geomID (rtcOccluded scene ((makeRay p d)\<lparr>ray_tnear := 0.001, ray_tfar := 1\<rparr>))
          = RTC_INVALID_GEOMETRY_ID"
    unfolding assms by (simp add: makeRay_def)
  then show ?thesis
    by (simp add: visibility_def Let_def invalid_id_nonzero)
qed

lemma visibility_occluded:
  assumes "ray_geomID (rtcOccluded scene ((makeRay p d)\<lparr>ray_tnear := 0.001, ray_tfar := 1\<rparr>)) = 0"
  shows "visibility scene p d = 0"
  using assms by (simp add: visibility_def Let_def)

lemma visibility_binary: "visibility scene p d = 0 \<or> visibility scene p d = 1"
  by (simp add: visibility_def Let_def)

lemma pathTraceRay_hit:
  assumes "ray = rtcIntersect scene ray0"
    and "ray_geomID ray \<noteq> RTC_INVALID_GEOMETRY_ID"
    and "material_at Materials (ray_geomID ray) = Inr m"
    and "P = ray_org ray + scale (ray_dir ray) (ray_tfar ray)"
    and "n = rtcInterpolate2 scene (ray_geomID ray) (ray_primID ray) (ray_u ray) (ray_v ray)"
  shows "pathTraceRay scene Materials ray0
           = Inr (scale (scale (divide_by (Vec3 1 1 1) (vlength (Q - P) * vlength (Q - P))
                                * divide_by (pow (DiffuseColor m) gamma) PI)
                           (max 0 (dot (normalize n) (normalize (Q - P)))))
                    (visibility scene P (Q - P)),
                  ray)"
proof -
  have P: "Vec3 (vx (ray_org ray) + vx (ray_dir ray) * ray_tfar ray)
                (vy (ray_org ray) + vy (ray_dir ray) * ray_tfar ray)
                (vz (ray_org ray) + vz (ray_dir ray) * ray_tfar ray) = P"
    by (simp add: assms(4) plus_vec3_def scale_def)
  have i: "intersectScene scene ray0 = (True, ray)"
    using assms(1) assms(2) by (simp add: intersectScene_def Let_def)
  show ?thesis
    unfolding pathTraceRay_def i
    by (simp add: Let_def P shade_in_range [OF assms(3)] assms(5))
qed

lemma below_light:
  assumes "vx P = vx Q" and "vz P = vz Q" and "vy P < vy Q"
  shows "vlength (Q - P) = vy Q - vy P" and "normalize (Q - P) = Vec3 0 1 0"
proof -
  have d: "Q - P = Vec3 0 (vy Q - vy P) 0"
    using assms(1) assms(2) by (simp add: minus_vec3_def)
  show l: "vlength (Q - P) = vy Q - vy P"
    using assms(3) by (simp add: d vlength_def dot_def)
  show "normalize (Q - P) = Vec3 0 1 0"
    unfolding normalize_def l using assms(3) by (simp add: d divide_by_def)
qed


lemma floor_down_ray_hit_point:
  "ray_org (rtcIntersect floor_scene down_ray)
     + scale (ray_dir (rtcIntersect floor_scene down_ray)) (ray_tfar (rtcIntersect floor_scene down_ray))
   = Vec3 0 0 0"
  unfolding floor_hit_down_ray
  by (simp add: down_ray_def makeRay_def plus_vec3_def scale_def)

lemma floor_occluded_hit_down_ray:
  "rtcIntersect floor_scene_occluded down_ray = rtcIntersect floor_scene down_ray"
  by (simp add: floor_scene_occluded_def floor_scene_def)

text \<open>
  C7 (as the code has it). At a hit point directly below the light Q (same x and z, lower
  y): when the shadow query leaves the shadow ray as makeRay built it (nothing occludes),
  the interpolated normal has a positive y component and the base color is positive in
  every channel, the radiance returned is positive in every channel; when the shadow query
  reports an occluder (Embree sets geomID to 0), the radiance returned is zero, whatever
  the material and the normal. The visibility factor is 0 or 1.
\<close>

theorem pathTraceRay_below_light:
  assumes "ray = rtcIntersect scene ray0"
    and "ray_geomID ray \<noteq> RTC_INVALID_GEOMETRY_ID"
    and "material_at Materials (ray_geomID ray) = Inr m"
    and "P = ray_org ray + scale (ray_dir ray) (ray_tfar ray)"
    and "vx P = vx Q" and "vz P = vz Q" and "vy P < vy Q"
    and "n = rtcInterpolate2 scene (ray_geomID ray) (ray_primID ray) (ray_u ray) (ray_v ray)"
    and "shadowRay = (makeRay P (Q - P))\<lparr>ray_tnear := 0.001, ray_tfar := 1\<rparr>"
  shows "(rtcOccluded scene shadowRay = shadowRay \<and> 0 < vy n
            \<and> 0 < vx (DiffuseColor m) \<and> 0 < vy (DiffuseColor m) \<and> 0 < vz (DiffuseColor m)
          \<longrightarrow> (\<exists>L. pathTraceRay scene Materials ray0 = Inr (L, ray)
                  \<and> 0 < vx L \<and> 0 < vy L \<and> 0 < vz L))
         \<and> (ray_geomID (rtcOccluded scene shadowRay) = 0
              \<longrightarrow> pathTraceRay scene Materials ray0 = Inr (Vec3 0 0 0, ray))
         \<and> (visibility scene P (Q - P) = 0 \<or> visibility scene P (Q - P) = 1)"
proof (intro conjI impI)
  note eq = pathTraceRay_hit [OF assms(1) assms(2) assms(3) assms(4) assms(8)]
  note bl = below_light [OF assms(5) assms(6) assms(7)]
  show "visibility scene P (Q - P) = 0 \<or> visibility scene P (Q - P) = 1"
    by (rule visibility_binary)
  show "pathTraceRay scene Materials ray0 = Inr (Vec3 0 0 0, ray)"
    if "ray_geomID (rtcOccluded scene shadowRay) = 0"
  proof -
    have "visibility scene P (Q - P) = 0"
      using that unfolding assms(9) by (rule visibility_occluded)
    then show ?thesis
      unfolding eq by (simp add: scale_def)
  qed
  show "\<exists>L. pathTraceRay scene Materials ray0 = Inr (L, ray) \<and> 0 < vx L \<and> 0 < vy L \<and> 0 < vz L"
    if h: "rtcOccluded scene shadowRay = shadowRay \<and> 0 < vy n
            \<and> 0 < vx (DiffuseColor m) \<and> 0 < vy (DiffuseColor m) \<and> 0 < vz (DiffuseColor m)"
  proof -
    have vis: "visibility scene P (Q - P) = 1"
      using h unfolding assms(9) by (simp add: visibility_unoccluded)
    have "n \<noteq> Vec3 0 0 0"
      using h by auto
    then have ln: "0 < vlength n"
      using vlength_nonneg [of n] vlength_zero [of n] by linarith
    have cosine: "0 < dot (normalize n) (normalize (Q - P))"
      unfolding bl(2) using h ln by (simp add: dot_def normalize_def divide_by_def)
    have dist: "0 < vlength (Q - P)"
      using assms(7) by (simp add: bl(1))
    have "0 < vx (DiffuseColor m) powr gamma"
      and "0 < vy (DiffuseColor m) powr gamma"
      and "0 < vz (DiffuseColor m) powr gamma"
      using h by simp_all
    then show ?thesis
      unfolding eq vis using cosine dist PI_pos
      by (simp add: scale_def times_vec3_def divide_by_def pow_def zero_less_mult_iff
          zero_less_divide_iff)
  qed
qed

theorem pathTraceRay_below_light_witness:
  "ray_geomID (rtcIntersect floor_scene down_ray) \<noteq> RTC_INVALID_GEOMETRY_ID
   \<and> vy (Vec3 0 0 0) < vy Q
   \<and> rtcOccluded floor_scene ((makeRay (Vec3 0 0 0) (Q - Vec3 0 0 0))\<lparr>ray_tnear := 0.001, ray_tfar := 1\<rparr>)
       = (makeRay (Vec3 0 0 0) (Q - Vec3 0 0 0))\<lparr>ray_tnear := 0.001, ray_tfar := 1\<rparr>
   \<and> (\<exists>L. pathTraceRay floor_scene [\<lparr>DiffuseColor = Vec3 0.8 0.6 0.4\<rparr>] down_ray
               = Inr (L, rtcIntersect floor_scene down_ray)
            \<and> 0 < vx L \<and> 0 < vy L \<and> 0 < vz L)
   \<and> ray_geomID (rtcOccluded floor_scene_occluded
         ((makeRay (Vec3 0 0 0) (Q - Vec3 0 0 0))\<lparr>ray_tnear := 0.001, ray_tfar := 1\<rparr>)) = 0
   \<and> pathTraceRay floor_scene_occluded [\<lparr>DiffuseColor = Vec3 0.8 0.6 0.4\<rparr>] down_ray
       = Inr (Vec3 0 0 0, rtcIntersect floor_scene down_ray)"
proof -
  let ?hit = "rtcIntersect floor_scene down_ray"
  let ?m = "\<lparr>DiffuseColor = Vec3 0.8 0.6 0.4\<rparr>"
  let ?sr = "(makeRay (Vec3 0 0 0) (Q - Vec3 0 0 0))\<lparr>ray_tnear := 0.001, ray_tfar := 1\<rparr>"
  have h: "ray_geomID ?hit \<noteq> RTC_INVALID_GEOMETRY_ID"
    unfolding floor_hit_down_ray by (simp add: invalid_id_nonzero [symmetric])
  have m: "material_at [?m] (ray_geomID ?hit) = Inr ?m"
    unfolding floor_hit_down_ray by (simp add: material_at_def)
  have P: "Vec3 0 0 0 = ray_org ?hit + scale (ray_dir ?hit) (ray_tfar ?hit)"
    by (simp add: floor_down_ray_hit_point)
  have x: "vx (Vec3 0 0 0) = vx Q" and z: "vz (Vec3 0 0 0) = vz Q" and y: "vy (Vec3 0 0 0) < vy Q"
    by (simp_all add: Q_def)
  have n: "Vec3 0 1 0 = rtcInterpolate2 floor_scene (ray_geomID ?hit) (ray_primID ?hit)
                          (ray_u ?hit) (ray_v ?hit)"
    by (simp add: floor_normal)
  have n': "Vec3 0 1 0 = rtcInterpolate2 floor_scene_occluded (ray_geomID ?hit) (ray_primID ?hit)
                          (ray_u ?hit) (ray_v ?hit)"
    by (simp add: floor_scene_occluded_def)
  have free: "rtcOccluded floor_scene ?sr = ?sr"
    by (simp add: floor_scene_def)
  have blocked: "ray_geomID (rtcOccluded floor_scene_occluded ?sr) = 0"
    by (simp add: floor_scene_occluded_def)
  have lit: "\<exists>L. pathTraceRay floor_scene [?m] down_ray = Inr (L, ?hit)
                \<and> 0 < vx L \<and> 0 < vy L \<and> 0 < vz L"
    using pathTraceRay_below_light [OF refl h m P x z y n refl] free by simp
  have dark: "pathTraceRay floor_scene_occluded [?m] down_ray = Inr (Vec3 0 0 0, ?hit)"
    using pathTraceRay_below_light [OF floor_occluded_hit_down_ray [symmetric] h m P x z y n' refl]
      blocked by simp
  from h y free lit blocked dark show ?thesis by blast
qed

text \<open>
  C7 as the spec states it fails for a black material: the floor point under the light
  is hit, nothing occludes it (the visibility factor is 1), and the radiance returned is
  zero, not positive.
\<close>

theorem pathTraceRay_black_counterexample:
  "ray_org (rtcIntersect floor_scene down_ray)
     + scale (ray_dir (rtcIntersect floor_scene down_ray)) (ray_tfar (rtcIntersect floor_scene down_ray))
     = Vec3 0 0 0
   \<and> Q = Vec3 0 1.4 0
   \<and> visibility floor_scene (Vec3 0 0 0) (Q - Vec3 0 0 0) = 1
   \<and> pathTraceRay floor_scene [\<lparr>DiffuseColor = Vec3 0 0 0\<rparr>] down_ray
       = Inr (Vec3 0 0 0, rtcIntersect floor_scene down_ray)"
proof -
  let ?hit = "rtcIntersect floor_scene down_ray"
  let ?m = "\<lparr>DiffuseColor = Vec3 0 0 0\<rparr>"
  have h: "ray_geomID ?hit \<noteq> RTC_INVALID_GEOMETRY_ID"
    unfolding floor_hit_down_ray by (simp add: invalid_id_nonzero [symmetric])
  have m: "material_at [?m] (ray_geomID ?hit) = Inr ?m"
    unfolding floor_hit_down_ray by (simp add: material_at_def)
  have vis: "visibility floor_scene (Vec3 0 0 0) (Q - Vec3 0 0 0) = 1"
    by (rule visibility_unoccluded) (simp add: floor_scene_def)
  have "pathTraceRay floor_scene [?m] down_ray = Inr (Vec3 0 0 0, ?hit)"
    unfolding pathTraceRay_hit [OF refl h m floor_down_ray_hit_point [symmetric] refl]
    by (simp add: pow_def divide_by_def times_vec3_def scale_def)
  with vis show ?thesis
    by (simp add: floor_down_ray_hit_point Q_def)
qed




text \<open>
  C10. traceRay and pathTraceRay are the same function: for every scene, material table
  and ray they return the same radiance (or the same error) and leave the same ray.
\<close>

theorem traceRay_eq_pathTraceRay:
  "traceRay scene Materials ray = pathTraceRay scene Materials ray"
  by (simp add: traceRay_def pathTraceRay_def)

end
